theory Spec2Isabelle
  imports Main "HOL-Library.Sublist"
begin

text \<open>
  The operations of the terminal drivers (\<open>terminals/base.py\<close>, \<open>terminals/tmux.py\<close>,
  \<open>terminals/vscode.py\<close>) as functions. What an operation reads from its object (the
  dry-run flag of the command service, the platform flag of the scripting service, the
  variant) and from its surroundings (the environment, the file system, the host that
  answers external calls) is a parameter; the constructors are not modelled. An operation
  that calls a helper takes the log of the calls made so far and returns it extended.
\<close>

section \<open>Python strings\<close>

text \<open>
  A Python \<open>str\<close> is modelled as a \<open>string\<close>; a character stands for the code point of
  the same number (code points below 256). \<open>is_space\<close> lists the code points below 256
  that \<open>str.strip()\<close> removes: TAB, LF, VT, FF, CR, FS, GS, RS, US, SPACE, NEL and NBSP.
\<close>

definition is_space :: "char \<Rightarrow> bool" where
  "is_space c = (let n = (of_char c :: nat) in (9 \<le> n \<and> n \<le> 13) \<or> (28 \<le> n \<and> n \<le> 32) \<or> n = 133 \<or> n = 160)"

text \<open>\<open>s.strip()\<close>\<close>

definition strip :: "string \<Rightarrow> string" where
  "strip s = rev (dropWhile is_space (rev (dropWhile is_space s)))"

text \<open>\<open>s.split(d)\<close> for a one-character separator: never the empty list.\<close>

fun split_on :: "char \<Rightarrow> string \<Rightarrow> string list" where
  "split_on d [] = [[]]"
| "split_on d (c # cs) =
     (if c = d then [] # split_on d cs
      else (case split_on d cs of
              [] \<Rightarrow> [[c]]
            | x # xs \<Rightarrow> (c # x) # xs))"

text \<open>The truth value of an optional string: \<open>None\<close> and \<open>""\<close> are false.\<close>

fun truthy :: "string option \<Rightarrow> bool" where
  "truthy None = False"
| "truthy (Some s) = (s \<noteq> [])"

section \<open>External commands\<close>

text \<open>
  What \<open>subprocess\<close> hands back: the exit code and the captured standard output.
\<close>

record completed_process =
  returncode :: int
  stdout :: string

text \<open>A helper either returns a value or raises an exception.\<close>

datatype 'a outcome = Returned 'a | Raised

text \<open>
  The three command helpers of \<open>automate_terminal.utils\<close>, as a call-recording test
  double sees them: the argument vector, and for \<open>run_command_rw\<close> the \<open>dry_run\<close> flag
  it was given.
\<close>

datatype call =
    RunCommandR "string list"
  | RunCommandRW "string list" bool
  | RunCommand "string list"

type_synonym cmd_log = "(call \<times> completed_process outcome) list"

text \<open>
  The host is a parameter: it answers a call, knowing everything that was called before.
\<close>

type_synonym cmd_world = "cmd_log \<Rightarrow> call \<Rightarrow> completed_process outcome"

text \<open>
  \<open>run_command_r\<close> and \<open>run_command\<close> are not part of the sources at hand; they execute
  the command, and the host decides the result.
\<close>

definition run_command_r :: "cmd_world \<Rightarrow> string list \<Rightarrow> cmd_log \<Rightarrow> completed_process outcome \<times> cmd_log" where
  "run_command_r w cmd log = (let r = w log (RunCommandR cmd) in (r, log @ [(RunCommandR cmd, r)]))"


text \<open>
  Modelled from the spec: \<open>run_command_rw\<close> of \<open>automate_terminal.utils\<close> is not part of
  the sources at hand. "Command execution (read-write): given an argument vector and a
  dry-run flag, performs the action unless dry-run is set, in which case it performs no
  external effect but returns a success-shaped result." Under dry-run the host is not
  consulted; the log still records that the helper was invoked, and with which flag.
\<close>

definition run_command_rw :: "cmd_world \<Rightarrow> string list \<Rightarrow> bool \<Rightarrow> cmd_log \<Rightarrow> completed_process outcome \<times> cmd_log" where
  "run_command_rw w cmd dry_run log =
     (let r = (if dry_run then Returned \<lparr>returncode = 0, stdout = []\<rparr>
               else w log (RunCommandRW cmd False))
      in (r, log @ [(RunCommandRW cmd dry_run, r)]))"



text \<open>A step succeeded when the helper returned with exit code 0.\<close>

fun ok :: "completed_process outcome \<Rightarrow> bool" where
  "ok (Returned p) = (returncode p = 0)"
| "ok Raised = False"

section \<open>The tmux driver\<close>

subsection \<open>\<open>TmuxTerminal.switch_to_session\<close>\<close>

text \<open>
  Every \<open>return False\<close> of the source is a branch; an exception raised by a helper is
  caught by the \<open>except Exception\<close> clause, which returns \<open>False\<close>.
\<close>

definition tmux_switch_to_session ::
  "cmd_world \<Rightarrow> bool \<Rightarrow> string \<Rightarrow> string option \<Rightarrow> cmd_log \<Rightarrow> bool \<times> cmd_log" where
  "tmux_switch_to_session w dry_run session_id session_init_script log =
     (case run_command_r w
             [''tmux'', ''display-message'', ''-p'', ''-t'', session_id, ''-F'', ''#{window_id}''] log of
        (Raised, log1) \<Rightarrow> (False, log1)
      | (Returned window_result, log1) \<Rightarrow>
          if returncode window_result \<noteq> 0 then (False, log1)
          else
            let window_id = strip (stdout window_result) in
            (case run_command_rw w [''tmux'', ''select-window'', ''-t'', window_id] dry_run log1 of
               (Raised, log2) \<Rightarrow> (False, log2)
             | (Returned select_window_result, log2) \<Rightarrow>
                 if returncode select_window_result \<noteq> 0 then (False, log2)
                 else
                   (case run_command_rw w [''tmux'', ''select-pane'', ''-t'', session_id] dry_run log2 of
                      (Raised, log3) \<Rightarrow> (False, log3)
                    | (Returned result, log3) \<Rightarrow>
                        if returncode result \<noteq> 0 then (False, log3)
                        else if truthy session_init_script then
                          (case run_command_rw w
                                  [''tmux'', ''send-keys'', ''-t'', session_id,
                                   the session_init_script, ''Enter''] dry_run log3 of
                             (Raised, log4) \<Rightarrow> (False, log4)
                           | (Returned send_result, log4) \<Rightarrow> (returncode send_result = 0, log4))
                        else (True, log3))))"

text \<open>
  The calls of the switching protocol, in order: the window query, the window selection
  (addressed to the window the query named), the pane selection, and the key-send, which
  is part of the protocol only for a script that is neither \<open>None\<close> nor empty.
\<close>

definition switch_protocol :: "bool \<Rightarrow> string \<Rightarrow> string option \<Rightarrow> string \<Rightarrow> call list" where
  "switch_protocol dry_run session_id session_init_script window_id =
     [RunCommandR [''tmux'', ''display-message'', ''-p'', ''-t'', session_id, ''-F'', ''#{window_id}''],
      RunCommandRW [''tmux'', ''select-window'', ''-t'', window_id] dry_run,
      RunCommandRW [''tmux'', ''select-pane'', ''-t'', session_id] dry_run]
     @ (case session_init_script of
          None \<Rightarrow> []
        | Some script \<Rightarrow>
            if script = [] then []
            else [RunCommandRW [''tmux'', ''send-keys'', ''-t'', session_id, script, ''Enter''] dry_run])"

text \<open>The window identifier a recorded window query produced.\<close>

fun window_of :: "cmd_log \<Rightarrow> string" where
  "window_of ((c, Returned p) # rest) = strip (stdout p)"
| "window_of rest = []"

text \<open>
  What a helper hands back for a call, given what was called before: the host's answer,
  except under dry-run.
\<close>

fun helper_result :: "cmd_world \<Rightarrow> cmd_log \<Rightarrow> call \<Rightarrow> completed_process outcome" where
  "helper_result w log (RunCommandRW cmd dry_run) =
     (if dry_run then Returned \<lparr>returncode = 0, stdout = []\<rparr> else w log (RunCommandRW cmd False))"
| "helper_result w log (RunCommandR cmd) = w log (RunCommandR cmd)"
| "helper_result w log (RunCommand cmd) = w log (RunCommand cmd)"

text \<open>The entries \<open>steps\<close>, appended to \<open>log\<close> one by one, record what the helpers returned.\<close>

fun recorded :: "cmd_world \<Rightarrow> cmd_log \<Rightarrow> cmd_log \<Rightarrow> bool" where
  "recorded w log [] = True"
| "recorded w log ((c, r) # rest) = (r = helper_result w log c \<and> recorded w (log @ [(c, r)]) rest)"

text \<open>A host on which every command succeeds and prints \<open>@1\<close> and a newline.\<close>

definition obliging_host :: cmd_world where
  "obliging_host log c = Returned \<lparr>returncode = 0, stdout = ''@1\<newline>''\<rparr>"

text \<open>What the log holds after a switch on the obliging host, with the script \<open>ls\<close>.\<close>

definition obliging_switch :: cmd_log where
  "obliging_switch =
     [(RunCommandR [''tmux'', ''display-message'', ''-p'', ''-t'', ''%1'', ''-F'', ''#{window_id}''],
       Returned \<lparr>returncode = 0, stdout = ''@1\<newline>''\<rparr>),
      (RunCommandRW [''tmux'', ''select-window'', ''-t'', ''@1''] False,
       Returned \<lparr>returncode = 0, stdout = ''@1\<newline>''\<rparr>),
      (RunCommandRW [''tmux'', ''select-pane'', ''-t'', ''%1''] False,
       Returned \<lparr>returncode = 0, stdout = ''@1\<newline>''\<rparr>),
      (RunCommandRW [''tmux'', ''send-keys'', ''-t'', ''%1'', ''ls'', ''Enter''] False,
       Returned \<lparr>returncode = 0, stdout = ''@1\<newline>''\<rparr>)]"

subsection \<open>Detection and the current pane\<close>

text \<open>The process environment is a parameter: \<open>os.getenv\<close> is a lookup in it.\<close>

type_synonym environ = "string \<Rightarrow> string option"

definition tmux_detect :: "environ \<Rightarrow> string option \<Rightarrow> string \<Rightarrow> bool" where
  "tmux_detect env term_program platform_name = (env ''TMUX'' \<noteq> None)"


definition tmux_supports_session_management :: bool where
  "tmux_supports_session_management = True"

subsection \<open>\<open>TmuxTerminal.session_exists\<close> and \<open>session_in_directory\<close>\<close>

definition tmux_session_exists :: "cmd_world \<Rightarrow> string \<Rightarrow> cmd_log \<Rightarrow> bool \<times> cmd_log" where
  "tmux_session_exists w session_id log =
     (if session_id = [] then (False, log)
      else
        (case run_command_r w [''tmux'', ''list-panes'', ''-a'', ''-F'', ''#{pane_id}''] log of
           (Raised, log1) \<Rightarrow> (False, log1)
         | (Returned result, log1) \<Rightarrow>
             if returncode result = 0 \<and> stdout result \<noteq> [] then
               (let pane_ids = map strip (split_on CHR ''\<newline>'' (strip (stdout result)))
                in (session_id \<in> set pane_ids, log1))
             else (False, log1)))"

text \<open>
  The parameter \<open>directory\<close> is the text \<open>str(directory)\<close> of the path object; the pane's
  path is compared with it as the host printed it.
\<close>

definition tmux_session_in_directory :: "cmd_world \<Rightarrow> string \<Rightarrow> string \<Rightarrow> cmd_log \<Rightarrow> bool \<times> cmd_log" where
  "tmux_session_in_directory w session_id directory log =
     (if session_id = [] then (False, log)
      else
        (case run_command_r w
                [''tmux'', ''display-message'', ''-p'', ''-t'', session_id, ''-F'', ''#{pane_current_path}''] log of
           (Raised, log1) \<Rightarrow> (False, log1)
         | (Returned result, log1) \<Rightarrow>
             if returncode result = 0 \<and> stdout result \<noteq> [] then
               (let pane_path = strip (stdout result) in (pane_path = directory, log1))
             else (False, log1)))"

subsection \<open>\<open>TmuxTerminal.open_new_tab\<close> and \<open>open_new_window\<close>\<close>


text \<open>The result of the key-send is dropped; an exception it raises is still caught.\<close>

definition tmux_open_new_window ::
  "cmd_world \<Rightarrow> bool \<Rightarrow> string \<Rightarrow> string option \<Rightarrow> cmd_log \<Rightarrow> bool \<times> cmd_log" where
  "tmux_open_new_window w dry_run working_directory session_init_script log =
     (case run_command_rw w [''tmux'', ''new-session'', ''-d'', ''-c'', working_directory] dry_run log of
        (Raised, log1) \<Rightarrow> (False, log1)
      | (Returned result, log1) \<Rightarrow>
          if returncode result \<noteq> 0 then (False, log1)
          else if truthy session_init_script then
            (case run_command_r w [''tmux'', ''display-message'', ''-p'', ''-t'', ''#{session_id}''] log1 of
               (Raised, log2) \<Rightarrow> (False, log2)
             | (Returned session_result, log2) \<Rightarrow>
                 if returncode session_result = 0 \<and> stdout session_result \<noteq> [] then
                   (let session_id = strip (stdout session_result) in
                    (case run_command_rw w
                            [''tmux'', ''send-keys'', ''-t'', session_id,
                             the session_init_script, ''Enter''] dry_run log2 of
                       (Raised, log3) \<Rightarrow> (False, log3)
                     | (Returned send_result, log3) \<Rightarrow> (True, log3)))
                 else (True, log2))
          else (True, log1))"

text \<open>The two calls of \<open>open_new_window\<close> that come before any key-send.\<close>

definition new_session_call :: "bool \<Rightarrow> string \<Rightarrow> call" where
  "new_session_call dry_run working_directory =
     RunCommandRW [''tmux'', ''new-session'', ''-d'', ''-c'', working_directory] dry_run"

definition newest_session_query :: call where
  "newest_session_query = RunCommandR [''tmux'', ''display-message'', ''-p'', ''-t'', ''#{session_id}'']"

text \<open>A key-send, whatever its target and text.\<close>

fun is_send_keys :: "call \<Rightarrow> bool" where
  "is_send_keys (RunCommandRW cmd dry_run) = (take 2 cmd = [''tmux'', ''send-keys''])"
| "is_send_keys (RunCommandR cmd) = False"
| "is_send_keys (RunCommand cmd) = False"

text \<open>
  A host on which every command fails with exit code 1, and a host on which the
  read-only queries fail while everything else succeeds.
\<close>

definition refusing_host :: cmd_world where
  "refusing_host log c = Returned \<lparr>returncode = 1, stdout = []\<rparr>"

definition queryless_host :: cmd_world where
  "queryless_host log c =
     (case c of
        RunCommandR cmd \<Rightarrow> Returned \<lparr>returncode = 1, stdout = []\<rparr>
      | RunCommandRW cmd dry_run \<Rightarrow> Returned \<lparr>returncode = 0, stdout = []\<rparr>
      | RunCommand cmd \<Rightarrow> Returned \<lparr>returncode = 0, stdout = []\<rparr>)"

text \<open>A host on which every read-only query raises, while everything else succeeds.\<close>

definition raising_host :: cmd_world where
  "raising_host log c =
     (case c of
        RunCommandR cmd \<Rightarrow> Raised
      | RunCommandRW cmd dry_run \<Rightarrow> Returned \<lparr>returncode = 0, stdout = []\<rparr>
      | RunCommand cmd \<Rightarrow> Returned \<lparr>returncode = 0, stdout = []\<rparr>)"

subsection \<open>\<open>TmuxTerminal.list_sessions\<close> and \<open>find_session_by_working_directory\<close>\<close>

text \<open>
  One element of the listing: the dictionary with the keys \<open>session_id\<close> and
  \<open>working_directory\<close>.
\<close>

record session_entry =
  entry_session_id :: string
  entry_working_directory :: string

text \<open>
  The loop over the lines of the listing. A line is kept when it is not blank and holds
  a bar; \<open>line.split("|", 1)\<close> cuts it at the first bar only.
\<close>

fun parse_panes :: "string list \<Rightarrow> session_entry list" where
  "parse_panes [] = []"
| "parse_panes (raw # rest) =
     (let line = strip raw in
      if line \<noteq> [] \<and> CHR ''|'' \<in> set line then
        \<lparr>entry_session_id = strip (takeWhile (\<lambda>c. c \<noteq> CHR ''|'') line),
         entry_working_directory = strip (tl (dropWhile (\<lambda>c. c \<noteq> CHR ''|'') line))\<rparr>
        # parse_panes rest
      else parse_panes rest)"

definition tmux_list_sessions :: "cmd_world \<Rightarrow> cmd_log \<Rightarrow> session_entry list \<times> cmd_log" where
  "tmux_list_sessions w log =
     (case run_command_r w
             [''tmux'', ''list-panes'', ''-a'', ''-F'', ''#{pane_id}|#{pane_current_path}''] log of
        (Raised, log1) \<Rightarrow> ([], log1)
      | (Returned result, log1) \<Rightarrow>
          if returncode result \<noteq> 0 \<or> stdout result = [] then ([], log1)
          else (parse_panes (split_on CHR ''\<newline>'' (strip (stdout result))), log1))"

text \<open>
  The file system is a parameter: \<open>resolve p\<close> is \<open>str(Path(p).resolve())\<close>, which returns
  the resolved path or raises (\<open>ValueError\<close> for a NUL character, \<open>RuntimeError\<close> for a
  loop of symbolic links). The two loops of the search return at the first hit; neither
  they nor the method catch an exception, so it leaves the method.
\<close>

fun first_exact ::
  "(string \<Rightarrow> string outcome) \<Rightarrow> string \<Rightarrow> session_entry list \<Rightarrow> string option outcome" where
  "first_exact resolve target_path [] = Returned None"
| "first_exact resolve target_path (session # rest) =
     (case resolve (entry_working_directory session) of
        Raised \<Rightarrow> Raised
      | Returned session_path \<Rightarrow>
          if session_path = target_path then Returned (Some (entry_session_id session))
          else first_exact resolve target_path rest)"

fun first_below ::
  "(string \<Rightarrow> string outcome) \<Rightarrow> string \<Rightarrow> session_entry list \<Rightarrow> string option outcome" where
  "first_below resolve target_path [] = Returned None"
| "first_below resolve target_path (session # rest) =
     (case resolve (entry_working_directory session) of
        Raised \<Rightarrow> Raised
      | Returned session_path \<Rightarrow>
          if prefix (target_path @ ''/'') session_path then Returned (Some (entry_session_id session))
          else first_below resolve target_path rest)"

definition tmux_find_session_by_working_directory ::
  "cmd_world \<Rightarrow> (string \<Rightarrow> string outcome) \<Rightarrow> string \<Rightarrow> bool \<Rightarrow> cmd_log
     \<Rightarrow> string option outcome \<times> cmd_log" where
  "tmux_find_session_by_working_directory w resolve target_path subdirectory_ok log =
     (case tmux_list_sessions w log of
        (sessions, log1) \<Rightarrow>
          (case resolve target_path of
             Raised \<Rightarrow> (Raised, log1)
           | Returned target \<Rightarrow>
               (case first_exact resolve target sessions of
                  Raised \<Rightarrow> (Raised, log1)
                | Returned (Some found) \<Rightarrow> (Returned (Some found), log1)
                | Returned None \<Rightarrow>
                    if subdirectory_ok then (first_below resolve target sessions, log1)
                    else (Returned None, log1))))"

subsection \<open>\<open>TmuxTerminal.run_in_active_session\<close>\<close>




section \<open>The editor driver\<close>

datatype vscode_variant = VSCode | Cursor


definition app_names :: "vscode_variant \<Rightarrow> string list" where
  "app_names variant = (if variant = VSCode then [''Code'', ''Visual Studio Code''] else [''Cursor''])"

definition vscode_detect :: "vscode_variant \<Rightarrow> environ \<Rightarrow> string option \<Rightarrow> string \<Rightarrow> bool" where
  "vscode_detect variant env term_program platform_name =
     (if term_program \<noteq> Some ''vscode'' then False
      else
        let has_cursor_id = truthy (env ''CURSOR_TRACE_ID'') in
        if variant = VSCode then \<not> has_cursor_id else has_cursor_id)"

definition vscode_get_current_session_id :: "string option" where
  "vscode_get_current_session_id = None"

text \<open>The flag \<open>is_macos\<close> is \<open>self.applescript.is_macos\<close>.\<close>

definition vscode_supports_session_management :: "bool \<Rightarrow> bool" where
  "vscode_supports_session_management is_macos = is_macos"

subsection \<open>File URLs\<close>

text \<open>
  \<open>urllib.parse.quote(s, safe='/')\<close>: letters, digits, \<open>_.-~\<close> and the slash are kept,
  every other character becomes the percent-escaped bytes of its UTF-8 encoding.
\<close>

definition unreserved :: "char \<Rightarrow> bool" where
  "unreserved c =
     (let n = (of_char c :: nat) in
      (65 \<le> n \<and> n \<le> 90) \<or> (97 \<le> n \<and> n \<le> 122) \<or> (48 \<le> n \<and> n \<le> 57)
      \<or> c \<in> set ''_.-~'')"

definition percent_byte :: "nat \<Rightarrow> string" where
  "percent_byte b = [CHR ''%'', ''0123456789ABCDEF'' ! (b div 16), ''0123456789ABCDEF'' ! (b mod 16)]"

definition quote_char :: "char \<Rightarrow> string" where
  "quote_char c =
     (let n = (of_char c :: nat) in
      if unreserved c \<or> c = CHR ''/'' then [c]
      else if n < 128 then percent_byte n
      else percent_byte (192 + n div 64) @ percent_byte (128 + n mod 64))"

definition quote :: "string \<Rightarrow> string" where
  "quote s = concat (map quote_char s)"

text \<open>\<open>_path_to_file_url\<close>: an exception of \<open>resolve\<close> leaves the function.\<close>

definition path_to_file_url :: "(string \<Rightarrow> string outcome) \<Rightarrow> string \<Rightarrow> string outcome" where
  "path_to_file_url resolve path =
     (case resolve path of
        Raised \<Rightarrow> Raised
      | Returned resolved \<Rightarrow> Returned (''file://'' @ quote resolved))"

subsection \<open>Window scripts\<close>

text \<open>
  The two AppleScript texts differ in the process name and the target URL they are built
  from, and in what they do on a match: the script of \<open>session_exists\<close> only answers, the
  script of \<open>_find_window_with_path\<close> brings the window to the front and clicks it. A
  script is recorded by its kind and these two parts instead of its text.
\<close>

datatype script =
    WindowExists string string
  | WindowActivate string string

type_synonym script_log = "(script \<times> string outcome) list"

type_synonym script_world = "script_log \<Rightarrow> script \<Rightarrow> string outcome"

text \<open>
  \<open>AppleScriptService.execute_with_result\<close> is not part of the sources at hand; it runs
  the script, and the host decides the result.
\<close>

definition execute_with_result :: "script_world \<Rightarrow> script \<Rightarrow> script_log \<Rightarrow> string outcome \<times> script_log" where
  "execute_with_result a applescript log = (let r = a log applescript in (r, log @ [(applescript, r)]))"

text \<open>
  The loop of \<open>_find_window_with_path\<close> over the process names; an exception of the
  scripting service leaves the function.
\<close>

fun activate_first :: "script_world \<Rightarrow> string \<Rightarrow> string list \<Rightarrow> script_log \<Rightarrow> bool outcome \<times> script_log" where
  "activate_first a target_url [] log = (Returned False, log)"
| "activate_first a target_url (app_name # rest) log =
     (case execute_with_result a (WindowActivate app_name target_url) log of
        (Raised, log1) \<Rightarrow> (Raised, log1)
      | (Returned result, log1) \<Rightarrow>
          if result = ''true'' then (Returned True, log1)
          else activate_first a target_url rest log1)"

definition find_window_with_path ::
  "script_world \<Rightarrow> bool \<Rightarrow> vscode_variant \<Rightarrow> (string \<Rightarrow> string outcome) \<Rightarrow> string
     \<Rightarrow> script_log \<Rightarrow> bool outcome \<times> script_log" where
  "find_window_with_path a is_macos variant resolve workspace_path log =
     (if \<not> is_macos then (Returned False, log)
      else
        (case path_to_file_url resolve workspace_path of
           Raised \<Rightarrow> (Raised, log)
         | Returned target_url \<Rightarrow> activate_first a target_url (app_names variant) log))"

text \<open>The loop of \<open>session_exists\<close> over the process names.\<close>

fun exists_first :: "script_world \<Rightarrow> string \<Rightarrow> string list \<Rightarrow> script_log \<Rightarrow> bool outcome \<times> script_log" where
  "exists_first a target_url [] log = (Returned False, log)"
| "exists_first a target_url (app_name # rest) log =
     (case execute_with_result a (WindowExists app_name target_url) log of
        (Raised, log1) \<Rightarrow> (Raised, log1)
      | (Returned result, log1) \<Rightarrow>
          if result = ''true'' then (Returned True, log1)
          else exists_first a target_url rest log1)"

text \<open>
  \<open>path_exists p\<close> is \<open>Path(p).exists()\<close>, which returns or raises (a \<open>PermissionError\<close>, for
  one). The \<open>except Exception\<close> clause turns an exception of the file system or of the
  scripting service into the result false.
\<close>

definition vscode_session_exists ::
  "script_world \<Rightarrow> bool \<Rightarrow> vscode_variant \<Rightarrow> (string \<Rightarrow> bool outcome)
     \<Rightarrow> (string \<Rightarrow> string outcome) \<Rightarrow> string \<Rightarrow> script_log \<Rightarrow> bool \<times> script_log" where
  "vscode_session_exists a is_macos variant path_exists resolve session_id log =
     (if \<not> is_macos then (False, log)
      else
        (case path_exists session_id of
           Raised \<Rightarrow> (False, log)
         | Returned present \<Rightarrow>
             if \<not> present then (False, log)
             else
               (case path_to_file_url resolve session_id of
                  Raised \<Rightarrow> (False, log)
                | Returned target_url \<Rightarrow>
                    (case exists_first a target_url (app_names variant) log of
                       (Raised, log1) \<Rightarrow> (False, log1)
                     | (Returned found, log1) \<Rightarrow> (found, log1)))))"

definition vscode_find_session_by_working_directory ::
  "script_world \<Rightarrow> bool \<Rightarrow> vscode_variant \<Rightarrow> (string \<Rightarrow> bool outcome)
     \<Rightarrow> (string \<Rightarrow> string outcome) \<Rightarrow> string \<Rightarrow> bool \<Rightarrow> script_log
     \<Rightarrow> string option \<times> script_log" where
  "vscode_find_session_by_working_directory a is_macos variant path_exists resolve target_path
       subdirectory_ok log =
     (case vscode_session_exists a is_macos variant path_exists resolve target_path log of
        (True, log1) \<Rightarrow> (Some target_path, log1)
      | (False, log1) \<Rightarrow> (None, log1))"

definition vscode_switch_to_session ::
  "script_world \<Rightarrow> bool \<Rightarrow> vscode_variant \<Rightarrow> (string \<Rightarrow> string outcome) \<Rightarrow> string
     \<Rightarrow> string option \<Rightarrow> script_log \<Rightarrow> bool \<times> script_log" where
  "vscode_switch_to_session a is_macos variant resolve session_id session_init_script log =
     (if \<not> is_macos then (False, log)
      else
        (case find_window_with_path a is_macos variant resolve session_id log of
           (Raised, log1) \<Rightarrow> (False, log1)
         | (Returned found, log1) \<Rightarrow> (found, log1)))"

definition vscode_open_new_tab :: "string \<Rightarrow> string option \<Rightarrow> bool" where
  "vscode_open_new_tab working_directory session_init_script = False"


section \<open>Capabilities\<close>

text \<open>The \<open>Capabilities\<close> value of \<open>automate_terminal.models\<close>: eight flags.\<close>

record capabilities =
  can_create_tabs :: bool
  can_create_windows :: bool
  can_list_sessions :: bool
  can_switch_to_session :: bool
  can_detect_session_id :: bool
  can_detect_working_directory :: bool
  can_paste_commands :: bool
  can_run_in_active_session :: bool

text \<open>
  The drivers: one that implements the abstract operations and overrides none of the
  capability predicates, the tmux driver, and the editor driver with its variant and the
  platform flag of its scripting service. \<open>base_can_create_tabs\<close> is the method
  \<open>_can_create_tabs\<close> of \<open>BaseTerminal\<close>, and \<open>self_can_create_tabs\<close> is the method that a call
  on the driver reaches; so on for the other seven. The editor driver inherits the two
  predicates that it does not override.
\<close>

datatype driver = PlainDriver | TmuxTerminal | VSCodeTerminal vscode_variant bool

definition base_can_create_tabs :: bool where
  "base_can_create_tabs = False"

definition base_can_create_windows :: bool where
  "base_can_create_windows = False"

definition base_can_list_sessions :: bool where
  "base_can_list_sessions = False"

definition base_can_switch_to_session :: bool where
  "base_can_switch_to_session = False"

definition base_can_detect_session_id :: bool where
  "base_can_detect_session_id = False"

definition base_can_detect_working_directory :: bool where
  "base_can_detect_working_directory = False"

definition base_can_paste_commands :: bool where
  "base_can_paste_commands = False"

definition base_can_run_in_active_session :: bool where
  "base_can_run_in_active_session = False"

fun self_can_create_tabs :: "driver \<Rightarrow> bool" where
  "self_can_create_tabs PlainDriver = base_can_create_tabs"
| "self_can_create_tabs TmuxTerminal = True"
| "self_can_create_tabs (VSCodeTerminal variant is_macos) = False"

fun self_can_create_windows :: "driver \<Rightarrow> bool" where
  "self_can_create_windows PlainDriver = base_can_create_windows"
| "self_can_create_windows TmuxTerminal = True"
| "self_can_create_windows (VSCodeTerminal variant is_macos) = True"

fun self_can_list_sessions :: "driver \<Rightarrow> bool" where
  "self_can_list_sessions PlainDriver = base_can_list_sessions"
| "self_can_list_sessions TmuxTerminal = True"
| "self_can_list_sessions (VSCodeTerminal variant is_macos) = False"

fun self_can_switch_to_session :: "driver \<Rightarrow> bool" where
  "self_can_switch_to_session PlainDriver = base_can_switch_to_session"
| "self_can_switch_to_session TmuxTerminal = True"
| "self_can_switch_to_session (VSCodeTerminal variant is_macos) = is_macos"

fun self_can_detect_session_id :: "driver \<Rightarrow> bool" where
  "self_can_detect_session_id PlainDriver = base_can_detect_session_id"
| "self_can_detect_session_id TmuxTerminal = True"
| "self_can_detect_session_id (VSCodeTerminal variant is_macos) = False"

fun self_can_detect_working_directory :: "driver \<Rightarrow> bool" where
  "self_can_detect_working_directory PlainDriver = base_can_detect_working_directory"
| "self_can_detect_working_directory TmuxTerminal = True"
| "self_can_detect_working_directory (VSCodeTerminal variant is_macos) = base_can_detect_working_directory"

fun self_can_paste_commands :: "driver \<Rightarrow> bool" where
  "self_can_paste_commands PlainDriver = base_can_paste_commands"
| "self_can_paste_commands TmuxTerminal = True"
| "self_can_paste_commands (VSCodeTerminal variant is_macos) = False"

fun self_can_run_in_active_session :: "driver \<Rightarrow> bool" where
  "self_can_run_in_active_session PlainDriver = base_can_run_in_active_session"
| "self_can_run_in_active_session TmuxTerminal = True"
| "self_can_run_in_active_session (VSCodeTerminal variant is_macos) = base_can_run_in_active_session"

text \<open>\<open>BaseTerminal.get_capabilities\<close>, inherited by every driver.\<close>

definition get_capabilities :: "driver \<Rightarrow> capabilities" where
  "get_capabilities self =
     \<lparr>can_create_tabs = self_can_create_tabs self,
      can_create_windows = self_can_create_windows self,
      can_list_sessions = self_can_list_sessions self,
      can_switch_to_session = self_can_switch_to_session self,
      can_detect_session_id = self_can_detect_session_id self,
      can_detect_working_directory = self_can_detect_working_directory self,
      can_paste_commands = self_can_paste_commands self,
      can_run_in_active_session = self_can_run_in_active_session self\<rparr>"

definition all_flags :: "bool \<Rightarrow> capabilities" where
  "all_flags b =
     \<lparr>can_create_tabs = b, can_create_windows = b, can_list_sessions = b,
      can_switch_to_session = b, can_detect_session_id = b, can_detect_working_directory = b,
      can_paste_commands = b, can_run_in_active_session = b\<rparr>"

section \<open>Hosts, environments and file systems of the examples\<close>

text \<open>A scripting host that finds a window for every script.\<close>

definition finding_host :: script_world where
  "finding_host log applescript = Returned ''true''"

text \<open>An environment in which \<open>CURSOR_TRACE_ID\<close> is set to the empty string, and nothing else is set.\<close>

definition empty_marker_env :: environ where
  "empty_marker_env name = (if name = ''CURSOR_TRACE_ID'' then Some [] else None)"

text \<open>
  A host with one pane, \<open>%0\<close>, whose current path is \<open>/private/tmp\<close>, and a file system in
  which \<open>/tmp\<close> is a symbolic link to \<open>/private/tmp\<close>.
\<close>

definition tmp_host :: cmd_world where
  "tmp_host log c =
     (case c of
        RunCommandR cmd \<Rightarrow>
          if last cmd = ''#{pane_current_path}''
          then Returned \<lparr>returncode = 0, stdout = ''/private/tmp\<newline>''\<rparr>
          else Returned \<lparr>returncode = 0, stdout = ''%0|/private/tmp\<newline>''\<rparr>
      | RunCommandRW cmd dry_run \<Rightarrow> Returned \<lparr>returncode = 0, stdout = []\<rparr>
      | RunCommand cmd \<Rightarrow> Returned \<lparr>returncode = 0, stdout = []\<rparr>)"

definition tmp_resolve :: "string \<Rightarrow> string outcome" where
  "tmp_resolve p = Returned (if p = ''/tmp'' then ''/private/tmp'' else p)"

text \<open>What the log holds after a switch to the empty identifier on the obliging host.\<close>

definition empty_switch :: cmd_log where
  "empty_switch =
     [(RunCommandR [''tmux'', ''display-message'', ''-p'', ''-t'', [], ''-F'', ''#{window_id}''],
       Returned \<lparr>returncode = 0, stdout = ''@1\<newline>''\<rparr>),
      (RunCommandRW [''tmux'', ''select-window'', ''-t'', ''@1''] False,
       Returned \<lparr>returncode = 0, stdout = ''@1\<newline>''\<rparr>),
      (RunCommandRW [''tmux'', ''select-pane'', ''-t'', []] False,
       Returned \<lparr>returncode = 0, stdout = ''@1\<newline>''\<rparr>)]"

text \<open>
  File systems in which every path exists, every path resolves to itself (no symbolic
  links, and only paths that are absolute and without dots are asked for), every path
  resolves to \<open>/home/u\<close>, and a path resolves to itself unless it holds a NUL character,
  for which \<open>resolve\<close> raises.
\<close>

definition anywhere :: "string \<Rightarrow> bool outcome" where
  "anywhere p = Returned True"

definition plain_resolve :: "string \<Rightarrow> string outcome" where
  "plain_resolve p = Returned p"

definition to_home :: "string \<Rightarrow> string outcome" where
  "to_home p = Returned ''/home/u''"



text \<open>
  System Events as the two window scripts read it: for a process name, whether such a
  process exists and, if so, its windows in order, each with the value of its
  \<open>AXDocument\<close> attribute when it has one. \<open>starts_with\<close> is AppleScript's \<open>starts with\<close>,
  which ignores case (here: of the ASCII letters). Both scripts answer \<open>true\<close> when some
  window's document starts with the target URL or the target URL starts with the
  window's document, and \<open>false\<close> otherwise; a window without the attribute is skipped.
\<close>

type_synonym processes = "string \<Rightarrow> string option list option"

definition lower :: "char \<Rightarrow> char" where
  "lower c = (let n = (of_char c :: nat) in if 65 \<le> n \<and> n \<le> 90 then char_of (n + 32) else c)"

definition starts_with :: "string \<Rightarrow> string \<Rightarrow> bool" where
  "starts_with whole start = prefix (map lower start) (map lower whole)"

fun window_matches :: "string \<Rightarrow> string option \<Rightarrow> bool" where
  "window_matches target_url None = False"
| "window_matches target_url (Some doc_path) =
     (starts_with doc_path target_url \<or> starts_with target_url doc_path)"

fun script_target :: "script \<Rightarrow> string \<times> string" where
  "script_target (WindowExists app_name target_url) = (app_name, target_url)"
| "script_target (WindowActivate app_name target_url) = (app_name, target_url)"

definition system_events :: "processes \<Rightarrow> script_world" where
  "system_events running log applescript =
     (case script_target applescript of
        (app_name, target_url) \<Rightarrow>
          (case running app_name of
             None \<Rightarrow> Returned ''false''
           | Some windows \<Rightarrow>
               if list_ex (window_matches target_url) windows then Returned ''true''
               else Returned ''false''))"

text \<open>
  The editor runs as \<open>Code\<close>: once with an untitled window and a window on \<open>/a/b/c\<close>, once
  with a single window on \<open>/a/bc\<close>.
\<close>

definition nested_window :: processes where
  "nested_window name = (if name = ''Code'' then Some [None, Some ''file:///a/b/c''] else None)"

definition sibling_window :: processes where
  "sibling_window name = (if name = ''Code'' then Some [Some ''file:///a/bc''] else None)"

section \<open>Reading a log\<close>






section \<open>Theorems\<close>

subsection \<open>The helpers\<close>

lemma run_command_rw_result:
  "run_command_rw w cmd dry_run log =
     (helper_result w log (RunCommandRW cmd dry_run),
      log @ [(RunCommandRW cmd dry_run, helper_result w log (RunCommandRW cmd dry_run))])"
  by (simp add: run_command_rw_def Let_def)

lemma run_command_r_result:
  "run_command_r w cmd log =
     (helper_result w log (RunCommandR cmd),
      log @ [(RunCommandR cmd, helper_result w log (RunCommandR cmd))])"
  by (simp add: run_command_r_def Let_def)

subsection \<open>The tmux driver\<close>

text \<open>
  C1. \<open>switch_to_session\<close> of the tmux driver appends to the log a non-empty prefix of the
  protocol (window query, select-window for the window the query named, select-pane,
  then send-keys to the target pane, the last only for a non-empty script), each entry
  holding what the helper returned. Every step but the last performed one succeeded, so a
  step is only attempted after all earlier ones succeeded; the result is true iff every
  performed step succeeded, and then the whole protocol was performed.
\<close>

theorem switch_to_session_protocol:
  assumes "tmux_switch_to_session w dry_run session_id session_init_script log = (res, log')"
  shows "\<exists>steps. log' = log @ steps \<and> steps \<noteq> [] \<and> recorded w log steps
     \<and> map fst steps = take (length steps)
           (switch_protocol dry_run session_id session_init_script (window_of steps))
     \<and> (\<forall>e \<in> set (butlast steps). ok (snd e))
     \<and> (res \<longleftrightarrow> (\<forall>e \<in> set steps. ok (snd e)))
     \<and> (res \<longrightarrow> map fst steps =
           switch_protocol dry_run session_id session_init_script (window_of steps))"
  using assms
  unfolding tmux_switch_to_session_def run_command_r_result run_command_rw_result Let_def
    switch_protocol_def
  by (auto split: outcome.splits if_splits option.splits simp del: helper_result.simps)

theorem switch_to_session_protocol_witness:
  "tmux_switch_to_session obliging_host False ''%1'' (Some ''ls'') [] = (True, obliging_switch)
   \<and> map fst obliging_switch = switch_protocol False ''%1'' (Some ''ls'') ''@1''
   \<and> list_all (\<lambda>e. ok (snd e)) obliging_switch"
proof -
  have run: "tmux_switch_to_session obliging_host False ''%1'' (Some ''ls'') [] = (True, obliging_switch)"
    by (simp add: tmux_switch_to_session_def run_command_r_def run_command_rw_def obliging_host_def
        obliging_switch_def strip_def is_space_def Let_def)
  from switch_to_session_protocol [OF run]
  obtain steps where "obliging_switch = [] @ steps"
    and "map fst steps = switch_protocol False ''%1'' (Some ''ls'') (window_of steps)"
    and "\<forall>e \<in> set steps. ok (snd e)"
    by blast
  then show ?thesis
    using run by (auto simp: obliging_switch_def strip_def is_space_def)
qed

lemma open_new_window_phase1:
  "\<not> ok (helper_result w log (new_session_call dry_run working_directory)) \<Longrightarrow>
   tmux_open_new_window w dry_run working_directory session_init_script log
     = (False, log @ [(new_session_call dry_run working_directory,
                       helper_result w log (new_session_call dry_run working_directory))])"
  by (cases "helper_result w log (new_session_call dry_run working_directory)")
     (simp_all add: tmux_open_new_window_def run_command_rw_result new_session_call_def
        del: helper_result.simps)

lemma open_new_window_phase2:
  assumes "ok created" and "truthy session_init_script"
    and "created = helper_result w log (new_session_call dry_run working_directory)"
    and "w (log @ [(new_session_call dry_run working_directory, created)]) newest_session_query
           = Returned session_result"
    and "\<not> (returncode session_result = 0 \<and> stdout session_result \<noteq> [])"
  shows "tmux_open_new_window w dry_run working_directory session_init_script log
     = (True, log @ [(new_session_call dry_run working_directory, created),
                     (newest_session_query, Returned session_result)])"
proof (cases created)
  case (Returned p)
  have hp: "helper_result w log (new_session_call dry_run working_directory) = Returned p"
    using assms(3) [symmetric] Returned by (rule trans)
  have rc: "returncode p = 0"
    using assms(1) Returned by simp
  have q: "w (log @ [(new_session_call dry_run working_directory, Returned p)]) newest_session_query
           = Returned session_result"
    using assms(4) Returned by simp
  from hp rc q
  show ?thesis using assms(2) Returned
    by (simp add: if_not_P [OF assms(5)] tmux_open_new_window_def run_command_rw_result run_command_r_def Let_def
        new_session_call_def newest_session_query_def del: helper_result.simps)
next
  case Raised
  with assms show ?thesis by simp
qed

text \<open>
  The two phases of \<open>open_new_window\<close> of the tmux driver, where the identifier query
  returns. When the session-creation call does not succeed, the result is false and the
  creation call is the only call made. When it succeeds, a non-empty script was given and
  the identifier query returns with a non-zero exit code or with no output, the result is
  true and the log grows by the creation call and the query only, so no key-send is made.
\<close>

lemma open_new_window_two_phase:
  fixes w dry_run working_directory session_init_script log
  defines "created \<equiv> helper_result w log (new_session_call dry_run working_directory)"
  defines "log1 \<equiv> log @ [(new_session_call dry_run working_directory, created)]"
  shows "(\<not> ok created \<longrightarrow>
            tmux_open_new_window w dry_run working_directory session_init_script log = (False, log1))
     \<and> (ok created \<and> truthy session_init_script \<and> w log1 newest_session_query = Returned session_result
          \<and> (returncode session_result \<noteq> 0 \<or> stdout session_result = []) \<longrightarrow>
            tmux_open_new_window w dry_run working_directory session_init_script log
              = (True, log1 @ [(newest_session_query, Returned session_result)])
            \<and> filter (is_send_keys \<circ> fst) (snd (tmux_open_new_window w dry_run working_directory session_init_script log))
               = filter (is_send_keys \<circ> fst) log)"
proof (intro conjI impI)
  assume "\<not> ok created"
  then show "tmux_open_new_window w dry_run working_directory session_init_script log = (False, log1)"
    unfolding created_def log1_def by (rule open_new_window_phase1)
next
  assume h: "ok created \<and> truthy session_init_script \<and> w log1 newest_session_query = Returned session_result
          \<and> (returncode session_result \<noteq> 0 \<or> stdout session_result = [])"
  then have eq: "tmux_open_new_window w dry_run working_directory session_init_script log
              = (True, log1 @ [(newest_session_query, Returned session_result)])"
    using open_new_window_phase2 [of created session_init_script w log dry_run working_directory session_result]
    by (simp add: created_def log1_def)
  show "tmux_open_new_window w dry_run working_directory session_init_script log
              = (True, log1 @ [(newest_session_query, Returned session_result)])"
    by (rule eq)
  show "filter (is_send_keys \<circ> fst) (snd (tmux_open_new_window w dry_run working_directory session_init_script log))
               = filter (is_send_keys \<circ> fst) log"
    by (simp add: eq log1_def new_session_call_def newest_session_query_def)
qed

lemma open_new_window_two_phase_example:
  "tmux_open_new_window refusing_host False ''/srv'' (Some ''ls'') []
     = (False, [(new_session_call False ''/srv'', Returned \<lparr>returncode = 1, stdout = []\<rparr>)])
   \<and> tmux_open_new_window queryless_host False ''/srv'' (Some ''ls'') []
     = (True, [(new_session_call False ''/srv'', Returned \<lparr>returncode = 0, stdout = []\<rparr>),
               (newest_session_query, Returned \<lparr>returncode = 1, stdout = []\<rparr>)])
   \<and> filter (is_send_keys \<circ> fst)
        (snd (tmux_open_new_window queryless_host False ''/srv'' (Some ''ls'') [])) = []"
  using open_new_window_two_phase [where w = refusing_host and log = "[]" and dry_run = False
      and working_directory = "''/srv''" and session_init_script = "Some ''ls''"]
    open_new_window_two_phase [where w = queryless_host and log = "[]" and dry_run = False
      and working_directory = "''/srv''" and session_init_script = "Some ''ls''"
      and session_result = "\<lparr>returncode = 1, stdout = []\<rparr>"]
  by (simp add: refusing_host_def queryless_host_def new_session_call_def newest_session_query_def)

text \<open>
  An identifier query can also fail by raising. The \<open>try\<close> block of \<open>open_new_window\<close> spans
  both phases, so its handler turns the exception into the result false, although the
  session was created.
\<close>

lemma open_new_window_query_raises:
  assumes "helper_result w log (new_session_call dry_run working_directory) = Returned p"
    and "returncode p = 0" and "truthy session_init_script"
    and "w (log @ [(new_session_call dry_run working_directory, Returned p)]) newest_session_query = Raised"
  shows "tmux_open_new_window w dry_run working_directory session_init_script log
     = (False, log @ [(new_session_call dry_run working_directory, Returned p),
                      (newest_session_query, Raised)])"
  using assms
  by (simp add: tmux_open_new_window_def run_command_rw_result run_command_r_def Let_def
      new_session_call_def newest_session_query_def del: helper_result.simps)

text \<open>
  C2. The session-creation call succeeds, a script was given, and the identifier query
  fails by raising: \<open>open_new_window\<close> makes no key-send, as the claim says, but returns
  false where the claim, and the docstring ("True if session creation succeeded"), say
  true.
\<close>

theorem open_new_window_query_raises_false:
  "tmux_open_new_window raising_host False ''/srv'' (Some ''ls'') []
     = (False, [(new_session_call False ''/srv'', Returned \<lparr>returncode = 0, stdout = []\<rparr>),
                (newest_session_query, Raised)])"
  by (simp add: tmux_open_new_window_def run_command_rw_def run_command_r_def raising_host_def
      new_session_call_def newest_session_query_def Let_def)








subsection \<open>Capabilities\<close>

text \<open>
  C8. The capabilities of a driver that overrides none of the eight predicates are all
  false, and the capabilities of the tmux driver are all true.
\<close>

theorem get_capabilities_plain_and_tmux:
  "get_capabilities PlainDriver = all_flags False \<and> get_capabilities TmuxTerminal = all_flags True"
  by (simp add: get_capabilities_def all_flags_def base_can_create_tabs_def
      base_can_create_windows_def base_can_list_sessions_def base_can_switch_to_session_def
      base_can_detect_session_id_def base_can_detect_working_directory_def
      base_can_paste_commands_def base_can_run_in_active_session_def)

subsection \<open>The editor driver\<close>

text \<open>
  C6. On a platform without the scripting facility (\<open>is_macos\<close> false), \<open>session_exists\<close>,
  \<open>find_session_by_working_directory\<close> and \<open>switch_to_session\<close> of the editor driver
  return false, nothing and false for every input, and leave the log of scripting calls as
  it was; \<open>supports_session_management\<close> is false.
\<close>

theorem vscode_unsupported_platform:
  "vscode_session_exists a False variant path_exists resolve session_id log = (False, log)
   \<and> vscode_find_session_by_working_directory a False variant path_exists resolve target_path
         subdirectory_ok log = (None, log)
   \<and> vscode_switch_to_session a False variant resolve session_id session_init_script log = (False, log)
   \<and> vscode_supports_session_management False = False"
  by (simp add: vscode_session_exists_def vscode_find_session_by_working_directory_def
      vscode_switch_to_session_def vscode_supports_session_management_def)

text \<open>The platform gate is what decides: on the supported platform the scripts are run.\<close>

lemma vscode_supported_platform_runs_script:
  "vscode_session_exists finding_host True VSCode anywhere plain_resolve ''/srv'' []
     = (True, [(WindowExists ''Code'' ''file:///srv'', Returned ''true'')])"
  by (simp add: vscode_session_exists_def finding_host_def app_names_def path_to_file_url_def
      execute_with_result_def quote_def quote_char_def unreserved_def Let_def anywhere_def
      plain_resolve_def)

text \<open>
  C10. The claim says that no subdirectory matching is ever performed. The window script
  of \<open>session_exists\<close> accepts a window whose document starts with the target URL, so with
  \<open>subdirectory_ok\<close> false a window on \<open>/a/b/c\<close>, and one on \<open>/a/bc\<close>, is found for the target
  \<open>/a/b\<close>.
\<close>

theorem vscode_find_matches_by_prefix:
  "fst (vscode_find_session_by_working_directory (system_events nested_window) True VSCode
          anywhere plain_resolve ''/a/b'' False []) = Some ''/a/b''
   \<and> fst (vscode_find_session_by_working_directory (system_events sibling_window) True VSCode
          anywhere plain_resolve ''/a/b'' False []) = Some ''/a/b''"
  by (simp add: vscode_find_session_by_working_directory_def vscode_session_exists_def
      system_events_def nested_window_def sibling_window_def app_names_def path_to_file_url_def
      execute_with_result_def quote_def quote_char_def unreserved_def Let_def anywhere_def
      plain_resolve_def starts_with_def lower_def)

text \<open>
  C10, amended. \<open>find_session_by_working_directory\<close> of the editor driver does the same
  for both values of \<open>subdirectory_ok\<close>, and a result other than \<open>None\<close> is the target path as
  it was given.
\<close>

theorem vscode_find_ignores_subdirectory_ok:
  "vscode_find_session_by_working_directory a is_macos variant path_exists resolve target_path True log
     = vscode_find_session_by_working_directory a is_macos variant path_exists resolve target_path False log
   \<and> (fst (vscode_find_session_by_working_directory a is_macos variant path_exists resolve target_path
              subdirectory_ok log) = Some found \<longrightarrow> found = target_path)"
  by (auto simp: vscode_find_session_by_working_directory_def split: prod.splits bool.splits)

theorem vscode_find_ignores_subdirectory_ok_witness:
  "fst (vscode_find_session_by_working_directory finding_host True VSCode anywhere plain_resolve
          ''/srv/../srv'' True []) = Some ''/srv/../srv''
   \<and> fst (vscode_find_session_by_working_directory finding_host True VSCode anywhere plain_resolve
          ''/srv/../srv'' False []) = Some ''/srv/../srv''"
proof -
  have found: "fst (vscode_find_session_by_working_directory finding_host True VSCode anywhere
          plain_resolve ''/srv/../srv'' True []) = Some ''/srv/../srv''"
    by (simp add: vscode_find_session_by_working_directory_def vscode_session_exists_def
        finding_host_def app_names_def execute_with_result_def Let_def anywhere_def
        plain_resolve_def path_to_file_url_def)
  with vscode_find_ignores_subdirectory_ok [where a = finding_host and is_macos = True
      and variant = VSCode and path_exists = anywhere and resolve = plain_resolve
      and target_path = "''/srv/../srv''" and log = "[]"]
  show ?thesis by simp
qed

text \<open>
  C9. The claim reads the secondary marker as present or absent; \<open>detect\<close> of the editor
  driver tests its truth value. With \<open>CURSOR_TRACE_ID\<close> set to the empty string the marker
  is present, the variant for the product without the marker detects itself, and the
  variant for the product with the marker does not.
\<close>

theorem vscode_detect_empty_marker:
  "empty_marker_env ''CURSOR_TRACE_ID'' \<noteq> None
   \<and> vscode_detect VSCode empty_marker_env (Some ''vscode'') ''Darwin''
   \<and> \<not> vscode_detect Cursor empty_marker_env (Some ''vscode'') ''Darwin''"
  by (simp add: vscode_detect_def empty_marker_env_def)

text \<open>
  C9, amended. \<open>detect\<close> of the editor driver is a function of the two markers: it is
  false when the primary marker is not \<open>vscode\<close>; when it is, the variant for the product
  without the secondary marker returns true iff that marker is unset or empty, and the
  other variant returns true iff it is set to a non-empty value.
\<close>

theorem vscode_detect_markers:
  "vscode_detect variant env term_program platform_name
     = (term_program = Some ''vscode''
        \<and> (case variant of
              VSCode \<Rightarrow> env ''CURSOR_TRACE_ID'' = None \<or> env ''CURSOR_TRACE_ID'' = Some []
            | Cursor \<Rightarrow> env ''CURSOR_TRACE_ID'' \<noteq> None \<and> env ''CURSOR_TRACE_ID'' \<noteq> Some []))"
  by (cases "env ''CURSOR_TRACE_ID''"; cases variant) (simp_all add: vscode_detect_def)

subsection \<open>Where the code departs from the specification\<close>

text \<open>
  C5. \<open>session_in_directory\<close> compares the text the host printed with the text of the given
  directory, without resolving either. The pane \<open>%0\<close> is in \<open>/private/tmp\<close>, to which \<open>/tmp\<close>
  resolves: asked for \<open>/tmp\<close>, \<open>session_in_directory\<close> answers false, while
  \<open>find_session_by_working_directory\<close>, which resolves both sides, finds the pane.
\<close>

theorem session_in_directory_unresolved:
  "tmp_resolve ''/private/tmp'' = tmp_resolve ''/tmp''
   \<and> fst (tmux_session_in_directory tmp_host ''%0'' ''/tmp'' []) = False
   \<and> fst (tmux_find_session_by_working_directory tmp_host tmp_resolve ''/tmp'' False [])
        = Returned (Some ''%0'')"
  by (simp add: tmux_session_in_directory_def tmux_find_session_by_working_directory_def
      tmux_list_sessions_def run_command_r_def tmp_host_def tmp_resolve_def strip_def is_space_def
      Let_def)

text \<open>
  C7. \<open>session_exists\<close> and \<open>session_in_directory\<close> of the tmux driver reject the empty
  identifier before any call; \<open>switch_to_session\<close> has no such check and runs its three
  calls with the empty identifier as the target.
\<close>

theorem switch_to_session_empty_identifier:
  "tmux_switch_to_session obliging_host False [] None [] = (True, empty_switch)"
  by (simp add: tmux_switch_to_session_def run_command_r_def run_command_rw_def obliging_host_def
      empty_switch_def strip_def is_space_def Let_def)

text \<open>The two sibling operations, for every host and log.\<close>

lemma tmux_empty_identifier_rejected:
  "tmux_session_exists w [] log = (False, log)
   \<and> tmux_session_in_directory w [] directory log = (False, log)"
  by (simp add: tmux_session_exists_def tmux_session_in_directory_def)

text \<open>
  On the supported platform the editor driver hands the empty identifier to the scripting
  service as well: the empty path is the current directory, which exists.
\<close>

lemma vscode_empty_identifier_runs_script:
  "vscode_session_exists finding_host True Cursor anywhere to_home [] []
     = (True, [(WindowExists ''Cursor'' ''file:///home/u'', Returned ''true'')])"
  by (simp add: vscode_session_exists_def finding_host_def app_names_def path_to_file_url_def
      execute_with_result_def quote_def quote_char_def unreserved_def Let_def anywhere_def
      to_home_def)

subsection \<open>Dry-run\<close>











end
